theory Spec2Isabelle
  imports Complex_Main
begin

section \<open>Numbers as numpy computes them\<close>

text \<open>
  The metric columns of the dashboard's DataFrame are \<open>int64\<close> or \<open>float64\<close> columns, and
  every formula of \<open>app.py\<close> goes through numpy's true division, which yields a
  \<open>float64\<close>. Dividing by zero raises nothing there: \<open>x / 0\<close> is \<open>inf\<close>, \<open>-inf\<close> or
  \<open>nan\<close> (with a RuntimeWarning), and those values propagate through later operations.

  A computed value is therefore an \<open>fval\<close>: a finite number, one of the two infinities,
  or NaN. Finite values are idealised as reals: rounding to 53 bits, overflow of the
  exponent, the wrap-around of \<open>int64\<close> and the sign of a zero are not modelled. The
  values read from a well-formed Dataset are finite, so record fields are \<open>real\<close>.
\<close>

datatype fval = Fin real | PInf | NInf | NaN

definition inf_of_sign :: "real \<Rightarrow> fval" where
  "inf_of_sign s = (if 0 < s then PInf else if s < 0 then NInf else NaN)"

fun fneg :: "fval \<Rightarrow> fval" where
  "fneg (Fin x) = Fin (- x)"
| "fneg PInf = NInf"
| "fneg NInf = PInf"
| "fneg NaN = NaN"

fun fadd :: "fval \<Rightarrow> fval \<Rightarrow> fval" where
  "fadd (Fin x) (Fin y) = Fin (x + y)"
| "fadd NaN _ = NaN"
| "fadd _ NaN = NaN"
| "fadd PInf NInf = NaN"
| "fadd NInf PInf = NaN"
| "fadd PInf _ = PInf"
| "fadd _ PInf = PInf"
| "fadd NInf _ = NInf"
| "fadd _ NInf = NInf"

definition fsub :: "fval \<Rightarrow> fval \<Rightarrow> fval" where
  "fsub a b = fadd a (fneg b)"

fun fmul :: "fval \<Rightarrow> fval \<Rightarrow> fval" where
  "fmul (Fin x) (Fin y) = Fin (x * y)"
| "fmul NaN _ = NaN"
| "fmul _ NaN = NaN"
| "fmul (Fin x) PInf = inf_of_sign x"
| "fmul (Fin x) NInf = inf_of_sign (- x)"
| "fmul PInf (Fin y) = inf_of_sign y"
| "fmul NInf (Fin y) = inf_of_sign (- y)"
| "fmul PInf PInf = PInf"
| "fmul NInf NInf = PInf"
| "fmul PInf NInf = NInf"
| "fmul NInf PInf = NInf"

fun fdiv :: "fval \<Rightarrow> fval \<Rightarrow> fval" where
  "fdiv (Fin x) (Fin y) = (if y = 0 then inf_of_sign x else Fin (x / y))"
| "fdiv NaN _ = NaN"
| "fdiv _ NaN = NaN"
| "fdiv (Fin x) PInf = Fin 0"
| "fdiv (Fin x) NInf = Fin 0"
| "fdiv PInf (Fin y) = (if y < 0 then NInf else PInf)"
| "fdiv NInf (Fin y) = (if y < 0 then PInf else NInf)"
| "fdiv PInf PInf = NaN"
| "fdiv PInf NInf = NaN"
| "fdiv NInf PInf = NaN"
| "fdiv NInf NInf = NaN"

text \<open>\<open>x ** i\<close> for a float \<open>x\<close> and a Python int \<open>i \<ge> 0\<close> (C's \<open>pow\<close>).\<close>

fun fpow :: "fval \<Rightarrow> nat \<Rightarrow> fval" where
  "fpow (Fin x) n = Fin (x ^ n)"
| "fpow PInf n = (if n = 0 then Fin 1 else PInf)"
| "fpow NInf n = (if n = 0 then Fin 1 else if even n then PInf else NInf)"
| "fpow NaN n = (if n = 0 then Fin 1 else NaN)"

definition is_finite :: "fval \<Rightarrow> bool" where
  "is_finite v = (case v of Fin _ \<Rightarrow> True | _ \<Rightarrow> False)"

definition nonneg :: "fval \<Rightarrow> bool" where
  \<comment> \<open>\<open>v >= 0\<close> as floats compare: false for NaN\<close>
  "nonneg v = (case v of Fin x \<Rightarrow> 0 \<le> x | PInf \<Rightarrow> True | _ \<Rightarrow> False)"

section \<open>The Dataset\<close>

text \<open>
  One row of the DataFrame with the dashboard's six columns. A Timestamp is a count of
  days, as \<open>timedelta(days=...)\<close> steps it.
\<close>

record metric_record =
  date :: int
  monthly_active_users :: real
  monthly_revenue :: real
  new_signups :: real
  churned_users :: real
  conversion_rate :: real

type_synonym dataset = "metric_record list"

datatype py_error = IndexError | ValueError | LibraryError string

text \<open>
  \<open>df.iloc[-k]\<close> for \<open>k \<ge> 1\<close>: the \<open>k\<close>-th row from the end, IndexError
  ("single positional indexer is out-of-bounds") when the frame has fewer than \<open>k\<close> rows.
\<close>

definition iloc_neg :: "'a list \<Rightarrow> nat \<Rightarrow> py_error + 'a" where
  "iloc_neg df k =
     (if 1 \<le> k \<and> k \<le> length df then Inr (df ! (length df - k)) else Inl IndexError)"

section \<open>calculate_metrics\<close>

record kpi_snapshot =
  mau :: real
  mau_change :: fval
  revenue :: real
  revenue_change :: fval
  churn_rate :: fval
  conversion :: real

definition calculate_metrics :: "dataset \<Rightarrow> py_error + kpi_snapshot" where
  "calculate_metrics df =
     (case iloc_neg df 1 of
        Inl e \<Rightarrow> Inl e
      | Inr latest \<Rightarrow>
          (case iloc_neg df 2 of
             Inl e \<Rightarrow> Inl e
           | Inr previous \<Rightarrow>
               Inr \<lparr> mau = monthly_active_users latest,
                     mau_change =
                       fmul (fdiv (fsub (Fin (monthly_active_users latest))
                                        (Fin (monthly_active_users previous)))
                                  (Fin (monthly_active_users previous)))
                            (Fin 100),
                     revenue = monthly_revenue latest,
                     revenue_change =
                       fmul (fdiv (fsub (Fin (monthly_revenue latest))
                                        (Fin (monthly_revenue previous)))
                                  (Fin (monthly_revenue previous)))
                            (Fin 100),
                     churn_rate =
                       fmul (fdiv (Fin (churned_users latest))
                                  (Fin (monthly_active_users previous)))
                            (Fin 100),
                     conversion = conversion_rate latest \<rparr>))"

section \<open>forecast_metrics\<close>

text \<open>
  \<open>df.sort_values('date')\<close>. On rows with distinct dates every sorting algorithm gives
  this result; on equal dates numpy's default quicksort leaves the order of the ties
  unspecified, where this model keeps the order of the frame.
\<close>

definition sort_values_date :: "dataset \<Rightarrow> dataset" where
  "sort_values_date df = sort_key date df"

text \<open>\<open>df.tail(n)\<close>: the last \<open>n\<close> rows, all of them when there are fewer.\<close>

definition tail :: "nat \<Rightarrow> 'a list \<Rightarrow> 'a list" where
  "tail n df = drop (length df - n) df"

text \<open>
  \<open>Series.pct_change()\<close> computes \<open>data / data.shift(1) - 1\<close>: NaN in the first
  position, then each value over its predecessor, minus one. (Its forward fill of missing
  values does nothing on a column of finite values.)
\<close>

fun pct_change :: "real list \<Rightarrow> fval list" where
  "pct_change [] = []"
| "pct_change (x # xs) =
     NaN # map (\<lambda>(prev, cur). fsub (fdiv (Fin cur) (Fin prev)) (Fin 1)) (zip (x # xs) xs)"

text \<open>
  \<open>Series.mean()\<close> skips NaN (\<open>skipna=True\<close>): the sum of the other values over their
  count, NaN when none is left. Infinities are not skipped.
\<close>

definition mean_skipna :: "fval list \<Rightarrow> fval" where
  "mean_skipna vs =
     (let ys = filter (\<lambda>v. v \<noteq> NaN) vs
      in if ys = [] then NaN else fdiv (foldl fadd (Fin 0) ys) (Fin (real (length ys))))"

record forecast_row =
  f_date :: int
  f_monthly_active_users :: fval
  f_monthly_revenue :: fval
  f_type :: string

text \<open>The locals of \<open>forecast_metrics\<close>, lines 45 to 51.\<close>

definition recent_data :: "dataset \<Rightarrow> dataset" where
  "recent_data df = tail 6 (sort_values_date df)"

definition growth_rate :: "dataset \<Rightarrow> fval" where
  "growth_rate df = mean_skipna (pct_change (map monthly_active_users (recent_data df)))"

definition revenue_growth :: "dataset \<Rightarrow> fval" where
  "revenue_growth df = mean_skipna (pct_change (map monthly_revenue (recent_data df)))"

definition adjusted_growth :: "dataset \<Rightarrow> real \<Rightarrow> fval" where
  "adjusted_growth df scenario_multiplier = fmul (growth_rate df) (Fin scenario_multiplier)"

definition adjusted_revenue_growth :: "dataset \<Rightarrow> real \<Rightarrow> fval" where
  "adjusted_revenue_growth df scenario_multiplier =
     fmul (revenue_growth df) (Fin scenario_multiplier)"

text \<open>
  Lines 54 to 67. \<open>range(1, months_ahead+1)\<close> is \<open>[1..months_ahead]\<close>, empty when
  \<open>months_ahead < 1\<close>. On an empty frame nothing raises before \<open>.iloc[-1]\<close> of line 55
  does (the mean of an empty column is NaN, its maximum NaT).
\<close>

definition forecast_metrics :: "dataset \<Rightarrow> int \<Rightarrow> real \<Rightarrow> py_error + forecast_row list" where
  "forecast_metrics df months_ahead scenario_multiplier =
     (case sort_values_date df of
        [] \<Rightarrow> Inl IndexError
      | r # rs \<Rightarrow>
          (let last_date = fold max (map date rs) (date r);
               last_mau = monthly_active_users (last (r # rs));
               last_revenue = monthly_revenue (last (r # rs))
           in Inr (map (\<lambda>i.
                 \<lparr> f_date = last_date + 30 * i,
                   f_monthly_active_users =
                     fmul (Fin last_mau)
                          (fpow (fadd (Fin 1) (adjusted_growth df scenario_multiplier)) (nat i)),
                   f_monthly_revenue =
                     fmul (Fin last_revenue)
                          (fpow (fadd (Fin 1) (adjusted_revenue_growth df scenario_multiplier))
                                (nat i)),
                   f_type = ''Forecast'' \<rparr>)
               [1..months_ahead])))"

section \<open>update_data\<close>

text \<open>
  \<open>str.split(',')\<close>: the pieces between the commas, one piece when there is no comma.
\<close>

fun split_comma :: "string \<Rightarrow> string list" where
  "split_comma [] = [[]]"
| "split_comma (c # cs) =
     (if c = CHR '','' then [] # split_comma cs
      else (case split_comma cs of p # ps \<Rightarrow> (c # p) # ps | [] \<Rightarrow> [[c]]))"

text \<open>
  What the callback takes from its libraries and from the module: base64 and UTF-8
  decoding (line 240 and the \<open>decode\<close> of line 241), \<open>pd.read_csv\<close> (line 241), the
  conversion \<open>df['date'] = pd.to_datetime(df['date'])\<close> (line 242; KeyError without a
  \<open>date\<close> column, a parse error on a cell that is no date), the serialisation
  \<open>df.to_json(date_format='iso', orient='split')\<close> of lines 236, 244 and 246 (it writes
  floats with 10 decimals and dates to the millisecond, so it need not be injective),
  and \<open>df_default\<close>, loaded from \<open>sample_data.csv\<close>. The callback never looks inside a
  frame or inside the JSON text, so both types are parameters.
\<close>

record ('raw, 'df, 'json) pandas_env =
  b64decode_utf8 :: "string \<Rightarrow> py_error + string"
  read_csv :: "string \<Rightarrow> py_error + 'raw"
  to_datetime_date :: "'raw \<Rightarrow> py_error + 'df"
  to_json :: "'df \<Rightarrow> 'json"
  df_default :: "'df"

datatype alert = NoAlert | Success string | Danger py_error

text \<open>The body of the \<open>try\<close>, lines 239 to 242.\<close>

definition parse_upload :: "('raw, 'df, 'json) pandas_env \<Rightarrow> string \<Rightarrow> py_error + 'df" where
  "parse_upload env contents =
     (case split_comma contents of
        [content_type, content_string] \<Rightarrow>
          (case b64decode_utf8 env content_string of
             Inl e \<Rightarrow> Inl e
           | Inr text \<Rightarrow>
               (case read_csv env text of
                  Inl e \<Rightarrow> Inl e
                | Inr raw \<Rightarrow> to_datetime_date env raw))
      | _ \<Rightarrow> Inl ValueError)"

definition update_data ::
  "('raw, 'df, 'json) pandas_env \<Rightarrow> string option \<Rightarrow> string \<Rightarrow> 'json \<times> alert" where
  "update_data env contents filename =
     (case contents of
        None \<Rightarrow> (to_json env (df_default env), NoAlert)
      | Some c \<Rightarrow>
          (case parse_upload env c of
             Inr df \<Rightarrow> (to_json env df, Success filename)
           | Inl e \<Rightarrow> (to_json env (df_default env), Danger e)))"

text \<open>
  Dash writes the first output of the callback into \<open>stored-data.data\<close>, whatever was
  there before: the callback is given no access to the stored value.
\<close>

definition commit_upload ::
  "('raw, 'df, 'json) pandas_env \<Rightarrow> 'json \<Rightarrow> string option \<Rightarrow> string \<Rightarrow> 'json" where
  "commit_upload env stored contents filename = fst (update_data env contents filename)"

section \<open>The views\<close>

text \<open>
  An f-string is kept as its pieces: literal text, and a value with its format
  specification (\<open>f"{v:,.0f}"\<close> is \<open>Fmt v '',.0f''\<close>). The arrow of the change lines is
  written as its three UTF-8 bytes.
\<close>

datatype piece = Lit string | Fmt fval string

definition up_arrow :: string where
  "up_arrow = [CHR 0xE2, CHR 0x86, CHR 0x91]"

definition update_kpis ::
  "dataset \<Rightarrow>
   py_error + (piece list \<times> piece list \<times> piece list \<times> piece list \<times> piece list \<times> piece list)"
where
  "update_kpis df =
     (case calculate_metrics df of
        Inl e \<Rightarrow> Inl e
      | Inr metrics \<Rightarrow>
          Inr ([Fmt (Fin (mau metrics)) '',.0f''],
               [Lit (up_arrow @ '' ''), Fmt (mau_change metrics) ''.1f'',
                Lit ''% from last month''],
               [Lit ''$'', Fmt (Fin (revenue metrics)) '',.0f''],
               [Lit (up_arrow @ '' ''), Fmt (revenue_change metrics) ''.1f'',
                Lit ''% from last month''],
               [Fmt (churn_rate metrics) ''.1f'', Lit ''%''],
               [Fmt (Fin (conversion metrics)) ''.1f'', Lit ''%'']))"

text \<open>
  A figure is its title and its traces, each trace the two columns it plots, in the order
  of the frame. Colours, margins and grid lines are constants of the layout and are left
  out.
\<close>

record trace =
  t_name :: string
  t_x :: "int list"
  t_y :: "fval list"

record figure =
  fig_title :: "piece list"
  fig_traces :: "trace list"

definition update_growth_chart :: "dataset \<Rightarrow> figure" where
  "update_growth_chart df =
     \<lparr> fig_title = [],
       fig_traces = [\<lparr> t_name = [], t_x = map date df,
                       t_y = map (\<lambda>r. Fin (monthly_active_users r)) df \<rparr>] \<rparr>"

definition update_revenue_chart :: "dataset \<Rightarrow> figure" where
  "update_revenue_chart df =
     \<lparr> fig_title = [],
       fig_traces = [\<lparr> t_name = [], t_x = map date df,
                       t_y = map (\<lambda>r. Fin (monthly_revenue r)) df \<rparr>] \<rparr>"

definition update_forecast :: "dataset \<Rightarrow> real \<Rightarrow> int \<Rightarrow> py_error + figure" where
  "update_forecast df growth_multiplier months =
     (case forecast_metrics df months growth_multiplier of
        Inl e \<Rightarrow> Inl e
      | Inr df_forecast \<Rightarrow>
          Inr \<lparr> fig_title = [Lit ''Forecast with '', Fmt (Fin growth_multiplier) [],
                              Lit ''x Growth Rate''],
                fig_traces =
                  [\<lparr> t_name = ''Historical MAU'', t_x = map date df,
                      t_y = map (\<lambda>r. Fin (monthly_active_users r)) df \<rparr>,
                   \<lparr> t_name = ''Forecast MAU'', t_x = map f_date df_forecast,
                      t_y = map f_monthly_active_users df_forecast \<rparr>] \<rparr>)"

definition update_engagement_chart :: "dataset \<Rightarrow> figure" where
  "update_engagement_chart df =
     \<lparr> fig_title = [],
       fig_traces =
         [\<lparr> t_name = ''New Signups'', t_x = map date df,
             t_y = map (\<lambda>r. Fin (new_signups r)) df \<rparr>,
          \<lparr> t_name = ''Churned Users'', t_x = map date df,
             t_y = map (\<lambda>r. Fin (churned_users r)) df \<rparr>] \<rparr>"

section \<open>The callback graph\<close>

text \<open>
  The \<open>@app.callback\<close> decorators, as data: a property is a component id and a property
  name. Dash runs a callback when one of its \<open>Input\<close> properties changes; a \<open>State\<close>
  property is read but triggers nothing.
\<close>

type_synonym dash_prop = "string \<times> string"

record callback_decl =
  cb_name :: string
  cb_outputs :: "dash_prop list"
  cb_inputs :: "dash_prop list"
  cb_states :: "dash_prop list"

definition callbacks :: "callback_decl list" where
  "callbacks =
     [\<lparr> cb_name = ''update_data'',
         cb_outputs = [(''stored-data'', ''data''), (''upload-status'', ''children'')],
         cb_inputs = [(''upload-data'', ''contents'')],
         cb_states = [(''upload-data'', ''filename'')] \<rparr>,
      \<lparr> cb_name = ''update_kpis'',
         cb_outputs = [(''kpi-mau'', ''children''), (''kpi-mau-change'', ''children''),
                       (''kpi-revenue'', ''children''), (''kpi-revenue-change'', ''children''),
                       (''kpi-churn'', ''children''), (''kpi-conversion'', ''children'')],
         cb_inputs = [(''stored-data'', ''data'')],
         cb_states = [] \<rparr>,
      \<lparr> cb_name = ''update_growth_chart'',
         cb_outputs = [(''growth-chart'', ''figure'')],
         cb_inputs = [(''stored-data'', ''data'')],
         cb_states = [] \<rparr>,
      \<lparr> cb_name = ''update_revenue_chart'',
         cb_outputs = [(''revenue-chart'', ''figure'')],
         cb_inputs = [(''stored-data'', ''data'')],
         cb_states = [] \<rparr>,
      \<lparr> cb_name = ''update_forecast'',
         cb_outputs = [(''forecast-chart'', ''figure'')],
         cb_inputs = [(''stored-data'', ''data''), (''growth-slider'', ''value''),
                      (''months-slider'', ''value'')],
         cb_states = [] \<rparr>,
      \<lparr> cb_name = ''update_engagement_chart'',
         cb_outputs = [(''engagement-chart'', ''figure'')],
         cb_inputs = [(''stored-data'', ''data'')],
         cb_states = [] \<rparr>]"

definition triggered_by :: "dash_prop \<Rightarrow> string list" where
  "triggered_by p = map cb_name (filter (\<lambda>cb. p \<in> set (cb_inputs cb)) callbacks)"

text \<open>
  The properties the callbacks read, and each output as Dash computes it from them: the
  callback applied to the current values of its declared inputs. Every view starts with
  \<open>pd.read_json(jsonified_data, orient='split')\<close>; \<open>stored_data\<close> is the frame that call
  returns from the stored text.
\<close>

record app_state =
  stored_data :: dataset
  growth_slider :: real
  months_slider :: int

definition kpi_panel ::
  "app_state \<Rightarrow>
   py_error + (piece list \<times> piece list \<times> piece list \<times> piece list \<times> piece list \<times> piece list)"
where
  "kpi_panel st = update_kpis (stored_data st)"

definition growth_view :: "app_state \<Rightarrow> figure" where
  "growth_view st = update_growth_chart (stored_data st)"

definition revenue_view :: "app_state \<Rightarrow> figure" where
  "revenue_view st = update_revenue_chart (stored_data st)"

definition engagement_view :: "app_state \<Rightarrow> figure" where
  "engagement_view st = update_engagement_chart (stored_data st)"

definition forecast_view :: "app_state \<Rightarrow> py_error + figure" where
  "forecast_view st = update_forecast (stored_data st) (growth_slider st) (months_slider st)"

section \<open>Reference definitions\<close>

text \<open>
  The quantities of the specification, in its own words and in real arithmetic: the record
  before the latest one, a percentage change \<open>(latest - previous) / previous * 100\<close>, the
  churn rate against the previous month's base, the last record by date, the
  month-over-month changes of a window and their mean, and the series projected from a
  last record and two adjusted growth rates.
\<close>

definition previous_record :: "dataset \<Rightarrow> metric_record" where
  "previous_record ds = ds ! (length ds - 2)"

definition pct_change_ref :: "real \<Rightarrow> real \<Rightarrow> real" where
  "pct_change_ref latest previous = (latest - previous) / previous * 100"

definition churn_rate_ref :: "real \<Rightarrow> real \<Rightarrow> real" where
  "churn_rate_ref churned previous = churned / previous * 100"

definition last_record :: "dataset \<Rightarrow> metric_record" where
  "last_record ds = last (sort_values_date ds)"

definition mom_changes :: "real list \<Rightarrow> real list" where
  "mom_changes xs = map (\<lambda>(prev, cur). (cur - prev) / prev) (zip xs (tl xs))"

definition mean_ref :: "real list \<Rightarrow> real" where
  "mean_ref rs = sum_list rs / real (length rs)"

definition growth_ref :: "real list \<Rightarrow> real" where
  "growth_ref xs = mean_ref (mom_changes xs)"

definition projected_series :: "metric_record \<Rightarrow> real \<Rightarrow> real \<Rightarrow> int \<Rightarrow> forecast_row list" where
  "projected_series lastr g g' h =
     map (\<lambda>i. \<lparr> f_date = date lastr + 30 * i,
                f_monthly_active_users = Fin (monthly_active_users lastr * (1 + g) ^ nat i),
                f_monthly_revenue = Fin (monthly_revenue lastr * (1 + g') ^ nat i),
                f_type = ''Forecast'' \<rparr>) [1..h]"

section \<open>Example data\<close>

text \<open>
  Dates are days since 1970-01-01: 19723 is 2024-01-01, 19754 is 2024-02-01 and 19783 is
  2024-03-01.
\<close>

definition row :: "int \<Rightarrow> real \<Rightarrow> real \<Rightarrow> real \<Rightarrow> real \<Rightarrow> real \<Rightarrow> metric_record" where
  "row d m r n c v =
     \<lparr> date = d, monthly_active_users = m, monthly_revenue = r, new_signups = n,
       churned_users = c, conversion_rate = v \<rparr>"

definition jan_feb :: dataset where
  "jan_feb = [row 19723 1000 5000 100 50 3, row 19754 1100 5500 120 60 4]"

definition zero_base :: dataset where
  "zero_base = [row 19723 0 5000 100 0 3, row 19754 1100 5500 120 60 4]"

definition early_history :: dataset where
  "early_history = [row 19692 700 100 10 20 1, row 19723 1000 5000 100 50 3,
                    row 19754 1100 5500 120 60 4]"

definition growth3 :: dataset where
  "growth3 = [row 19783 1210 400 130 70 5, row 19723 1000 100 100 50 3,
              row 19754 1100 200 120 60 4]"

definition launch :: dataset where
  "launch = [row 19723 0 10 5 0 0, row 19754 5 10 5 0 3]"

definition decline :: dataset where
  "decline = [row 19723 100 100 10 5 3, row 19754 10 10 1 90 3]"

definition single :: dataset where
  "single = [row 19723 1000 5000 100 50 3]"

text \<open>
  Two uploads as Dash hands them to \<open>update_data\<close>: an empty file, and a CSV file whose
  two rows are in descending date order, with its base64 encoding. \<open>example_env\<close> agrees
  with the libraries on these two uploads: \<open>pd.read_csv\<close> raises EmptyDataError on the
  empty text and returns the rows of the CSV in file order, \<open>pd.to_datetime\<close> converts
  the two dates. The JSON text of a frame is written \<open>Json_of\<close> the frame: the frames of
  the examples hold whole numbers dated at midnight, which \<open>to_json\<close> encodes without
  loss, row by row.
\<close>

datatype json_text = Json_of dataset

type_synonym raw_row = "string \<times> real \<times> real \<times> real \<times> real \<times> real"

definition csv_header :: string where
  "csv_header =
     ''date,monthly_active_users,monthly_revenue,new_signups,churned_users,conversion_rate''"

definition csv_desc :: string where
  "csv_desc = csv_header @ [CHR 0x0A] @ ''2024-02-01,1100,5500,120,60,4'' @ [CHR 0x0A]
     @ ''2024-01-01,1000,5000,100,50,3'' @ [CHR 0x0A]"

definition b64_desc :: string where
  "b64_desc = ''ZGF0ZSxtb250aGx5X2FjdGl2ZV91c2Vycyxtb250aGx5X3JldmVudWUsbmV3X3NpZ251cHMsY2h1cm5lZF91c2Vycyxjb252ZXJzaW9uX3JhdGUKMjAyNC0wMi0wMSwxMTAwLDU1MDAsMTIwLDYwLDQKMjAyNC0wMS0wMSwxMDAwLDUwMDAsMTAwLDUwLDMK''"

definition upload_desc :: string where
  "upload_desc = ''data:text/csv;base64,'' @ b64_desc"

definition upload_empty :: string where
  "upload_empty = ''data:text/csv;base64,''"

definition iso_days :: "string \<Rightarrow> py_error + int" where
  "iso_days s =
     (if s = ''2024-01-01'' then Inr 19723
      else if s = ''2024-02-01'' then Inr 19754
      else Inl (LibraryError ''Unknown datetime string format''))"

fun convert_dates :: "raw_row list \<Rightarrow> py_error + dataset" where
  "convert_dates [] = Inr []"
| "convert_dates ((d, m, r, n, c, v) # rows) =
     (case iso_days d of
        Inl e \<Rightarrow> Inl e
      | Inr t \<Rightarrow>
          (case convert_dates rows of
             Inl e \<Rightarrow> Inl e
           | Inr ds \<Rightarrow> Inr (row t m r n c v # ds)))"

definition example_env :: "(raw_row list, dataset, json_text) pandas_env" where
  "example_env =
     \<lparr> b64decode_utf8 =
         (\<lambda>s. if s = [] then Inr [] else if s = b64_desc then Inr csv_desc
              else Inl (LibraryError ''binascii.Error'')),
       read_csv =
         (\<lambda>t. if t = [] then Inl (LibraryError ''EmptyDataError'')
              else if t = csv_desc
              then Inr [(''2024-02-01'', 1100, 5500, 120, 60, 4),
                        (''2024-01-01'', 1000, 5000, 100, 50, 3)]
              else Inl (LibraryError ''ParserError'')),
       to_datetime_date = convert_dates,
       to_json = Json_of,
       df_default = jan_feb \<rparr>"

definition desc_frame :: dataset where
  "desc_frame = [row 19754 1100 5500 120 60 4, row 19723 1000 5000 100 50 3]"

section \<open>Properties of calculate_metrics\<close>

lemma two_decomp: "2 \<le> length (xs :: 'a list) \<Longrightarrow> \<exists>ys p l. xs = ys @ [p, l]"
proof -
  assume l: "2 \<le> length xs"
  then obtain zs l' where a: "xs = zs @ [l']" by (cases xs rule: rev_cases) auto
  with l obtain ys p where "zs = ys @ [p]" by (cases zs rule: rev_cases) auto
  with a show ?thesis by auto
qed

lemma pct_code:
  "fmul (fdiv (fsub (Fin l) (Fin p)) (Fin p)) (Fin 100) =
     (if p = 0 then inf_of_sign l else Fin (pct_change_ref l p))"
  by (simp add: fsub_def pct_change_ref_def inf_of_sign_def)

lemma churn_code:
  "fmul (fdiv (Fin c) (Fin p)) (Fin 100) =
     (if p = 0 then inf_of_sign c else Fin (churn_rate_ref c p))"
  by (simp add: churn_rate_ref_def inf_of_sign_def)

lemma calculate_metrics_append:
  "calculate_metrics (ys @ [p, l]) = Inr
     \<lparr> mau = monthly_active_users l,
       mau_change =
         (if monthly_active_users p = 0 then inf_of_sign (monthly_active_users l)
          else Fin (pct_change_ref (monthly_active_users l) (monthly_active_users p))),
       revenue = monthly_revenue l,
       revenue_change =
         (if monthly_revenue p = 0 then inf_of_sign (monthly_revenue l)
          else Fin (pct_change_ref (monthly_revenue l) (monthly_revenue p))),
       churn_rate =
         (if monthly_active_users p = 0 then inf_of_sign (churned_users l)
          else Fin (churn_rate_ref (churned_users l) (monthly_active_users p))),
       conversion = conversion_rate l \<rparr>"
proof -
  have "iloc_neg (ys @ [p, l]) 1 = Inr l" "iloc_neg (ys @ [p, l]) 2 = Inr p"
    by (simp_all add: iloc_neg_def nth_append)
  then show ?thesis
    unfolding calculate_metrics_def by (simp only: sum.case pct_code churn_code)
qed

lemma calculate_metrics_short: "length ds < 2 \<Longrightarrow> calculate_metrics ds = Inl IndexError"
proof -
  assume "length ds < 2"
  then have "length ds < 1 \<or> length ds < 2" by auto
  then show ?thesis by (auto simp add: calculate_metrics_def iloc_neg_def)
qed

text \<open>
  C1. On every Dataset with at least two records \<open>calculate_metrics\<close> returns the
  snapshot of the reference definitions, with \<open>latest\<close> the last record and \<open>previous\<close>
  the one before it: \<open>mau\<close> and \<open>revenue\<close> are the latest values, \<open>conversion\<close> is the
  latest conversion rate passed through, \<open>mau_change\<close> and \<open>revenue_change\<close> are
  \<open>(latest - previous) / previous * 100\<close>, and \<open>churn_rate\<close> is the latest churned users
  over the previous month's active users, times 100. Where the previous value is 0 the
  quotient has no real value, and the field is what numpy's division by zero gives: an
  infinity with the sign of the numerator, NaN for \<open>0 / 0\<close>.
\<close>

theorem calculate_metrics_reference:
  assumes "2 \<le> length ds"
  shows "calculate_metrics ds = Inr
     \<lparr> mau = monthly_active_users (last ds),
       mau_change =
         (if monthly_active_users (previous_record ds) = 0
          then inf_of_sign (monthly_active_users (last ds))
          else Fin (pct_change_ref (monthly_active_users (last ds))
                                   (monthly_active_users (previous_record ds)))),
       revenue = monthly_revenue (last ds),
       revenue_change =
         (if monthly_revenue (previous_record ds) = 0
          then inf_of_sign (monthly_revenue (last ds))
          else Fin (pct_change_ref (monthly_revenue (last ds))
                                   (monthly_revenue (previous_record ds)))),
       churn_rate =
         (if monthly_active_users (previous_record ds) = 0
          then inf_of_sign (churned_users (last ds))
          else Fin (churn_rate_ref (churned_users (last ds))
                                   (monthly_active_users (previous_record ds)))),
       conversion = conversion_rate (last ds) \<rparr>"
proof -
  from two_decomp [OF assms] obtain ys p l where ds: "ds = ys @ [p, l]" by blast
  have "last ds = l" "previous_record ds = p"
    by (simp_all add: ds previous_record_def nth_append)
  then show ?thesis
    using calculate_metrics_append [of ys p l] by (simp only: ds)
qed

text \<open>
  The example of the specification: January with 1000 active users, February with 1100
  and 60 churned users give a change of 10 percent and a churn rate of 6 percent.
\<close>

theorem calculate_metrics_reference_witness:
  "2 \<le> length jan_feb \<and>
   calculate_metrics jan_feb = Inr
     \<lparr> mau = 1100, mau_change = Fin 10, revenue = 5500, revenue_change = Fin 10,
       churn_rate = Fin 6, conversion = 4 \<rparr>"
  using calculate_metrics_reference [of jan_feb]
  by (simp add: jan_feb_def row_def previous_record_def pct_change_ref_def churn_rate_ref_def)

text \<open>
  C3, as the code has it. \<open>calculate_metrics\<close> raises an error exactly when the Dataset
  has fewer than two records, and the error is the IndexError of the positional lookup. On
  every Dataset with at least two records it returns a snapshot, also when the
  second-to-last record has no active users: the change and the churn rate of that
  snapshot are then an infinity or NaN, and finite otherwise (likewise the revenue change,
  by the previous revenue).
\<close>

theorem calculate_metrics_errors:
  "(case calculate_metrics ds of
      Inl e \<Rightarrow> e = IndexError \<and> length ds < 2
    | Inr s \<Rightarrow> 2 \<le> length ds \<and>
        is_finite (mau_change s) = (monthly_active_users (previous_record ds) \<noteq> 0) \<and>
        is_finite (churn_rate s) = (monthly_active_users (previous_record ds) \<noteq> 0) \<and>
        is_finite (revenue_change s) = (monthly_revenue (previous_record ds) \<noteq> 0))"
proof (cases "2 \<le> length ds")
  case True
  from two_decomp [OF True] obtain ys p l where ds: "ds = ys @ [p, l]" by blast
  have "previous_record ds = p" by (simp add: ds previous_record_def nth_append)
  then show ?thesis
    by (simp add: ds calculate_metrics_append is_finite_def inf_of_sign_def)
next
  case False
  then show ?thesis by (simp add: calculate_metrics_short)
qed

text \<open>
  C3 as stated fails: with no active users in the second-to-last record the call returns
  a snapshot with infinite change and churn rate, and signals nothing.
\<close>

theorem calculate_metrics_zero_base_counterexample:
  "monthly_active_users (zero_base ! (length zero_base - 2)) = 0 \<and>
   calculate_metrics zero_base = Inr
     \<lparr> mau = 1100, mau_change = PInf, revenue = 5500, revenue_change = Fin 10,
       churn_rate = PInf, conversion = 4 \<rparr>"
  by (simp add: zero_base_def row_def calculate_metrics_def iloc_neg_def fsub_def
      inf_of_sign_def)

text \<open>
  C10. The snapshot depends on the last two records only: two Datasets with at least
  two records each and the same last two records (\<open>df.tail(2)\<close>) have the same snapshot.
\<close>

theorem calculate_metrics_last_two:
  assumes "2 \<le> length a" and "2 \<le> length b" and "tail 2 a = tail 2 b"
  shows "calculate_metrics a = calculate_metrics b"
proof -
  from two_decomp [OF assms(1)] obtain ys p l where a: "a = ys @ [p, l]" by blast
  from two_decomp [OF assms(2)] obtain zs q m where b: "b = zs @ [q, m]" by blast
  from assms(3) have "p = q" "l = m" by (simp_all add: a b tail_def)
  then show ?thesis
    by (simp add: a b calculate_metrics_append)
qed

theorem calculate_metrics_last_two_witness:
  "2 \<le> length jan_feb \<and> 2 \<le> length early_history \<and>
   tail 2 jan_feb = tail 2 early_history \<and> jan_feb \<noteq> early_history \<and>
   calculate_metrics jan_feb = calculate_metrics early_history"
proof -
  have h: "2 \<le> length jan_feb" "2 \<le> length early_history"
    "tail 2 jan_feb = tail 2 early_history"
    by (simp_all add: jan_feb_def early_history_def tail_def)
  have "jan_feb \<noteq> early_history" by (simp add: jan_feb_def early_history_def)
  with h calculate_metrics_last_two [OF h] show ?thesis by simp
qed

section \<open>Properties of forecast_metrics\<close>

lemmas ev = row_def sort_values_date_def recent_data_def tail_def growth_rate_def
  revenue_growth_def adjusted_growth_def adjusted_revenue_growth_def mean_skipna_def
  fsub_def inf_of_sign_def forecast_metrics_def last_record_def

lemma sort_values_date_Nil: "(sort_values_date ds = []) = (ds = [])"
  unfolding sort_values_date_def by (metis length_sort length_0_conv)

lemma recent_data_length: "length (recent_data ds) = min 6 (length ds)"
  by (simp add: recent_data_def tail_def sort_values_date_def)

lemma sorted_le_last: "sorted (map f xs) \<Longrightarrow> x \<in> set xs \<Longrightarrow> f x \<le> f (last xs)"
  by (induction xs) auto

text \<open>The maximum of the sorted date column is the date of its last row.\<close>

lemma fold_max_last:
  assumes "sorted (map date (r # rs))"
  shows "fold max (map date rs) (date r) = date (last (r # rs))"
proof -
  have "fold max (map date rs) (date r) = Max (set (map date (r # rs)))"
    by (simp only: Max.set_eq_fold [symmetric] list.map)
  also have "\<dots> = date (last (r # rs))"
  proof (rule Max_eqI)
    show "finite (set (map date (r # rs)))" by simp
    show "date (last (r # rs)) \<in> set (map date (r # rs))"
      by (metis last_in_set list.discI image_eqI list.set_map)
  next
    fix y assume "y \<in> set (map date (r # rs))"
    then obtain x where "x \<in> set (r # rs)" "y = date x" by auto
    then show "y \<le> date (last (r # rs))"
      using sorted_le_last [OF assms] by blast
  qed
  finally show ?thesis .
qed

lemma foldl_fadd_Fin: "foldl fadd (Fin a) (map Fin rs) = Fin (a + sum_list rs)"
  by (induction rs arbitrary: a) (simp_all add: add.assoc)

lemma mean_skipna_Fin:
  "rs \<noteq> [] \<Longrightarrow> mean_skipna (NaN # map Fin rs) = Fin (mean_ref rs)"
proof -
  assume ne: "rs \<noteq> []"
  have f: "filter (\<lambda>v. v \<noteq> NaN) (map Fin rs) = map Fin rs"
    by (induction rs) simp_all
  show ?thesis
    using ne by (simp add: mean_skipna_def f foldl_fadd_Fin mean_ref_def)
qed

text \<open>
  Over a nonzero predecessor pandas' \<open>cur / prev - 1\<close> is the specification's
  \<open>(cur - prev) / prev\<close>.
\<close>

lemma pct_step: "p \<noteq> 0 \<Longrightarrow> fsub (fdiv (Fin c) (Fin p)) (Fin 1) = Fin ((c - p) / p)"
  by (simp add: fsub_def field_simps)

lemma zip_tl_butlast: "(p, c) \<in> set (zip xs (tl xs)) \<Longrightarrow> p \<in> set (butlast xs)"
proof (induction xs)
  case Nil
  then show ?case by simp
next
  case (Cons x ys)
  then show ?case by (cases ys) auto
qed

lemma pct_change_Fin:
  assumes "\<forall>x \<in> set (butlast xs). x \<noteq> 0" and "xs \<noteq> []"
  shows "pct_change xs = NaN # map Fin (mom_changes xs)"
proof -
  have nz: "fst pc \<noteq> 0" if "pc \<in> set (zip xs (tl xs))" for pc
  proof -
    obtain p c where pc: "pc = (p, c)" by (cases pc)
    from that pc have "(p, c) \<in> set (zip xs (tl xs))" by simp
    then have "p \<in> set (butlast xs)" by (rule zip_tl_butlast)
    with assms(1) have "p \<noteq> 0" by blast
    with pc show ?thesis by simp
  qed
  have "map (\<lambda>pc. fsub (fdiv (Fin (snd pc)) (Fin (fst pc))) (Fin 1)) (zip xs (tl xs))
     = map (\<lambda>pc. Fin ((snd pc - fst pc) / fst pc)) (zip xs (tl xs))"
  proof (rule map_cong)
    fix pc assume "pc \<in> set (zip xs (tl xs))"
    then have "fst pc \<noteq> 0" by (rule nz)
    then show "fsub (fdiv (Fin (snd pc)) (Fin (fst pc))) (Fin 1)
      = Fin ((snd pc - fst pc) / fst pc)" by (rule pct_step)
  qed simp
  then have "pct_change xs = NaN # map (\<lambda>pc. Fin ((snd pc - fst pc) / fst pc)) (zip xs (tl xs))"
    using assms(2) by (cases xs) (simp_all add: split_beta)
  then show ?thesis by (simp add: mom_changes_def split_beta)
qed

lemma growth_Fin:
  assumes "\<forall>x \<in> set (butlast xs). x \<noteq> 0" and "2 \<le> length xs"
  shows "mean_skipna (pct_change xs) = Fin (growth_ref xs)"
proof -
  from assms(2) have ne: "xs \<noteq> []" by auto
  have "length (mom_changes xs) = length xs - 1" by (simp add: mom_changes_def)
  with assms(2) have "mom_changes xs \<noteq> []" by (cases "mom_changes xs") auto
  then show ?thesis
    by (simp add: pct_change_Fin [OF assms(1) ne] mean_skipna_Fin growth_ref_def)
qed

lemma forecast_metrics_nonempty:
  assumes "ds \<noteq> []"
  shows "forecast_metrics ds h m = Inr (map (\<lambda>i.
      \<lparr> f_date = date (last_record ds) + 30 * i,
        f_monthly_active_users =
          fmul (Fin (monthly_active_users (last_record ds)))
               (fpow (fadd (Fin 1) (adjusted_growth ds m)) (nat i)),
        f_monthly_revenue =
          fmul (Fin (monthly_revenue (last_record ds)))
               (fpow (fadd (Fin 1) (adjusted_revenue_growth ds m)) (nat i)),
        f_type = ''Forecast'' \<rparr>) [1..h])"
proof -
  from assms obtain r rs where s: "sort_values_date ds = r # rs"
    by (cases "sort_values_date ds") (simp_all add: sort_values_date_Nil)
  have "sorted (map date (sort_values_date ds))"
    by (simp add: sort_values_date_def)
  then have "fold max (map date rs) (date r) = date (last (r # rs))"
    unfolding s by (rule fold_max_last)
  then show ?thesis
    unfolding forecast_metrics_def last_record_def s by (simp add: Let_def)
qed

lemma forecast_metrics_empty: "forecast_metrics [] h m = Inl IndexError"
  by (simp add: forecast_metrics_def sort_values_date_def)

lemma forecast_metrics_finite:
  assumes "ds \<noteq> []"
    and "growth_rate ds = Fin g" and "revenue_growth ds = Fin g'"
  shows "forecast_metrics ds h m = Inr (projected_series (last_record ds) (g * m) (g' * m) h)"
  by (simp add: forecast_metrics_nonempty [OF assms(1)] adjusted_growth_def
      adjusted_revenue_growth_def assms(2,3) projected_series_def)

lemma mom_changes_const:
  assumes "\<forall>i. Suc i < length w \<longrightarrow> w ! Suc i = w ! i * (1 + r)"
    and "\<forall>x \<in> set (butlast w). x \<noteq> 0"
  shows "mom_changes w = replicate (length w - 1) r"
proof (rule nth_equalityI)
  show "length (mom_changes w) = length (replicate (length w - 1) r)"
    by (simp add: mom_changes_def)
next
  fix i assume "i < length (mom_changes w)"
  then have i: "i < length w - 1" by (simp add: mom_changes_def)
  then have "butlast w ! i = w ! i" "i < length (butlast w)"
    by (simp_all add: nth_butlast)
  then have "w ! i \<in> set (butlast w)" by (metis nth_mem)
  with assms(2) have nz: "w ! i \<noteq> 0" by blast
  from i have s: "w ! Suc i = w ! i * (1 + r)" using assms(1) by simp
  have "mom_changes w ! i = (w ! Suc i - w ! i) / w ! i"
    using i by (simp add: mom_changes_def nth_tl)
  also have "\<dots> = r" using nz by (simp add: s field_simps)
  finally show "mom_changes w ! i = replicate (length w - 1) r ! i"
    using i by simp
qed

lemma growth_ref_const:
  assumes "\<forall>i. Suc i < length w \<longrightarrow> w ! Suc i = w ! i * (1 + r)"
    and "\<forall>x \<in> set (butlast w). x \<noteq> 0" and "2 \<le> length w"
  shows "growth_ref w = r"
proof -
  have "real (length w - 1) \<noteq> 0" using assms(3) by simp
  then show ?thesis
    by (simp add: growth_ref_def mean_ref_def mom_changes_const [OF assms(1,2)]
        sum_list_replicate)
qed

text \<open>
  C2, as the code has it. Take a Dataset with distinct dates whose trailing window (the up
  to six most recent records by date) has at least two records, none of which but the last
  has a zero in \<open>monthly_active_users\<close> or \<open>monthly_revenue\<close>, and a horizon
  \<open>h \<ge> 1\<close>. Then \<open>forecast_metrics\<close> returns exactly \<open>h\<close> points; with the growth rate
  the mean of the month-over-month changes across the window, the \<open>i\<close>-th point
  (\<open>i = 1..h\<close>) has the date of the last record plus \<open>30 * i\<close> days, the last MAU times
  \<open>(1 + growthRate * multiplier) ^ i\<close>, and the same for revenue. With multiplier 0 every
  projected value is the last historical value, and with multiplier 1 and a constant
  month-over-month growth \<open>r\<close> of MAU across the window the projected MAUs are the last
  MAU times \<open>(1 + r) ^ i\<close>, in order.
\<close>

theorem forecast_metrics_projection:
  assumes "distinct (map date ds)"
    and "2 \<le> length (recent_data ds)"
    and "1 \<le> h"
    and "\<forall>x \<in> set (butlast (map monthly_active_users (recent_data ds))). x \<noteq> 0"
    and "\<forall>x \<in> set (butlast (map monthly_revenue (recent_data ds))). x \<noteq> 0"
  shows "forecast_metrics ds h m =
           Inr (projected_series (last_record ds)
                  (growth_ref (map monthly_active_users (recent_data ds)) * m)
                  (growth_ref (map monthly_revenue (recent_data ds)) * m) h)
       \<and> (\<exists>s. forecast_metrics ds h m = Inr s \<and> length s = nat h)
       \<and> (\<exists>s. forecast_metrics ds h 0 = Inr s \<and>
             (\<forall>p \<in> set s. f_monthly_active_users p = Fin (monthly_active_users (last_record ds))
                        \<and> f_monthly_revenue p = Fin (monthly_revenue (last_record ds))))
       \<and> ((\<forall>i. Suc i < length (recent_data ds) \<longrightarrow>
               monthly_active_users (recent_data ds ! Suc i)
                 = monthly_active_users (recent_data ds ! i) * (1 + r)) \<longrightarrow>
           (\<exists>s. forecast_metrics ds h 1 = Inr s \<and>
                map f_monthly_active_users s
                  = map (\<lambda>i. Fin (monthly_active_users (last_record ds) * (1 + r) ^ nat i))
                        [1..h]))"
proof -
  let ?wm = "map monthly_active_users (recent_data ds)"
  let ?wr = "map monthly_revenue (recent_data ds)"
  from assms(2) have ne: "ds \<noteq> []"
    by (auto simp: recent_data_def tail_def sort_values_date_def)
  have gm: "growth_rate ds = Fin (growth_ref ?wm)"
    unfolding growth_rate_def using assms(2,4) by (intro growth_Fin) simp_all
  have gr: "revenue_growth ds = Fin (growth_ref ?wr)"
    unfolding revenue_growth_def using assms(2,5) by (intro growth_Fin) simp_all
  have eq: "forecast_metrics ds h k =
           Inr (projected_series (last_record ds) (growth_ref ?wm * k) (growth_ref ?wr * k) h)"
    for k
    by (rule forecast_metrics_finite [OF ne gm gr])
  have len: "length (projected_series l a b h) = nat h" for l a b
    by (simp add: projected_series_def)
  have zero: "\<forall>p \<in> set (projected_series l 0 0 h).
      f_monthly_active_users p = Fin (monthly_active_users l)
      \<and> f_monthly_revenue p = Fin (monthly_revenue l)" for l
    by (simp add: projected_series_def)
  have const: "\<exists>s. forecast_metrics ds h 1 = Inr s \<and>
                map f_monthly_active_users s
                  = map (\<lambda>i. Fin (monthly_active_users (last_record ds) * (1 + r) ^ nat i))
                        [1..h]"
    if c: "\<forall>i. Suc i < length (recent_data ds) \<longrightarrow>
               monthly_active_users (recent_data ds ! Suc i)
                 = monthly_active_users (recent_data ds ! i) * (1 + r)"
  proof -
    have "\<forall>i. Suc i < length ?wm \<longrightarrow> ?wm ! Suc i = ?wm ! i * (1 + r)"
      using c by simp
    then have "growth_ref ?wm = r"
      using assms(2,4) by (intro growth_ref_const) simp_all
    then show ?thesis
      by (simp add: eq [of 1] projected_series_def comp_def)
  qed
  show ?thesis
    using eq [of m] eq [of 0] len zero const by simp
qed

text \<open>
  Three months growing by a tenth each (revenue doubling), given out of date order:
  two points, 30 and 60 days after 2024-03-01.
\<close>

theorem forecast_metrics_projection_witness:
  "distinct (map date growth3) \<and> 2 \<le> length (recent_data growth3) \<and>
   forecast_metrics growth3 2 1 =
     Inr [\<lparr> f_date = 19813, f_monthly_active_users = Fin 1331, f_monthly_revenue = Fin 800,
            f_type = ''Forecast'' \<rparr>,
          \<lparr> f_date = 19843, f_monthly_active_users = Fin (14641 / 10),
            f_monthly_revenue = Fin 1600, f_type = ''Forecast'' \<rparr>] \<and>
   forecast_metrics growth3 2 0 =
     Inr [\<lparr> f_date = 19813, f_monthly_active_users = Fin 1210, f_monthly_revenue = Fin 400,
            f_type = ''Forecast'' \<rparr>,
          \<lparr> f_date = 19843, f_monthly_active_users = Fin 1210,
            f_monthly_revenue = Fin 400, f_type = ''Forecast'' \<rparr>]"
proof -
  have w: "recent_data growth3 =
    [row 19723 1000 100 100 50 3, row 19754 1100 200 120 60 4, row 19783 1210 400 130 70 5]"
    by (simp add: growth3_def recent_data_def tail_def sort_values_date_def row_def)
  have l: "last_record growth3 = row 19783 1210 400 130 70 5"
    by (simp add: growth3_def last_record_def sort_values_date_def row_def)
  have d: "distinct (map date growth3)" by (simp add: growth3_def row_def)
  have n: "2 \<le> length (recent_data growth3)" by (simp add: w)
  have h: "(1::int) \<le> 2" by simp
  have zm: "\<forall>x \<in> set (butlast (map monthly_active_users (recent_data growth3))). x \<noteq> 0"
    by (simp add: w row_def)
  have zr: "\<forall>x \<in> set (butlast (map monthly_revenue (recent_data growth3))). x \<noteq> 0"
    by (simp add: w row_def)
  have gm: "growth_ref (map monthly_active_users (recent_data growth3)) = 1 / 10"
    by (simp add: w row_def growth_ref_def mean_ref_def mom_changes_def)
  have gr: "growth_ref (map monthly_revenue (recent_data growth3)) = 1"
    by (simp add: w row_def growth_ref_def mean_ref_def mom_changes_def)
  have u: "[1..2] = [1, 2::int]" by (simp add: upto_rec1)
  from forecast_metrics_projection [OF d n h zm zr, of 1 0]
  have a: "forecast_metrics growth3 2 1 =
      Inr (projected_series (last_record growth3) (1 / 10) 1 2)"
    by (simp add: gm gr)
  from forecast_metrics_projection [OF d n h zm zr, of 0 0]
  have b: "forecast_metrics growth3 2 0 =
      Inr (projected_series (last_record growth3) 0 0 2)"
    by simp
  show ?thesis
    by (simp add: d n a b l projected_series_def u row_def power2_eq_square)
qed

text \<open>
  C2 as stated fails on a window with a zero: from 0 active users in January to 5 in
  February the percentage change is infinite, the multiplier 0 turns it into NaN, and the
  projected MAU is NaN, not the last historical value 5.
\<close>

theorem forecast_metrics_zero_multiplier_counterexample:
  "2 \<le> length (recent_data launch) \<and>
   forecast_metrics launch 1 0 =
     Inr [\<lparr> f_date = 19784, f_monthly_active_users = NaN, f_monthly_revenue = Fin 10,
            f_type = ''Forecast'' \<rparr>] \<and>
   monthly_active_users (last_record launch) = 5"
  by (simp add: launch_def ev)

text \<open>
  C5, as the code has it. When the trailing window has fewer than two records the
  Dataset has at most one. On an empty Dataset \<open>forecast_metrics\<close> raises IndexError; on
  a Dataset of one record it raises nothing and returns one point per month of the
  horizon, each dated from that record and with NaN as projected MAU and revenue.
\<close>

theorem forecast_metrics_short_window:
  assumes "length (recent_data ds) < 2"
  shows "forecast_metrics ds h m =
     (case ds of
        [] \<Rightarrow> Inl IndexError
      | r # _ \<Rightarrow> Inr (map (\<lambda>i. \<lparr> f_date = date r + 30 * i, f_monthly_active_users = NaN,
                                  f_monthly_revenue = NaN, f_type = ''Forecast'' \<rparr>) [1..h]))"
proof (cases ds)
  case Nil
  then show ?thesis by (simp add: forecast_metrics_empty)
next
  case (Cons r rs)
  with assms have rs: "rs = []" by (cases rs) (simp_all add: recent_data_length)
  have g: "adjusted_growth [r] m = NaN" "adjusted_revenue_growth [r] m = NaN"
    by (simp_all add: ev)
  have l: "last_record [r] = r" by (simp add: ev)
  have "fpow NaN (nat i) = NaN" if "i \<in> set [1..h]" for i
    using that by simp
  then show ?thesis
    by (simp add: Cons rs forecast_metrics_nonempty g l)
qed

theorem forecast_metrics_short_window_witness:
  "length (recent_data single) < 2 \<and>
   forecast_metrics single 2 1 =
     Inr [\<lparr> f_date = 19753, f_monthly_active_users = NaN, f_monthly_revenue = NaN,
            f_type = ''Forecast'' \<rparr>,
          \<lparr> f_date = 19783, f_monthly_active_users = NaN, f_monthly_revenue = NaN,
            f_type = ''Forecast'' \<rparr>]"
proof -
  have n: "length (recent_data single) < 2" by (simp add: recent_data_length single_def)
  have u: "[1..2] = [1, 2::int]" by (simp add: upto_rec1)
  from forecast_metrics_short_window [OF n, of 2 1] n show ?thesis
    by (simp add: single_def u row_def)
qed

text \<open>
  C5 as stated fails: on a Dataset of exactly one record the call returns a series, and
  its values are NaN.
\<close>

theorem forecast_metrics_single_record_counterexample:
  "length single = 1 \<and>
   forecast_metrics single 1 1 =
     Inr [\<lparr> f_date = 19753, f_monthly_active_users = NaN, f_monthly_revenue = NaN,
            f_type = ''Forecast'' \<rparr>]"
  by (simp add: single_def ev)

text \<open>
  C6, as the code has it. Nothing is clamped. When \<open>forecast_metrics\<close> returns a series,
  the last MAU and revenue are not negative and both adjusted growth rates are finite and
  at least \<open>-1\<close>, every projected MAU and revenue is \<open>\<ge> 0\<close>.
\<close>

theorem forecast_metrics_nonneg:
  assumes "forecast_metrics ds h m = Inr s"
    and "adjusted_growth ds m = Fin g" and "- 1 \<le> g"
    and "adjusted_revenue_growth ds m = Fin g'" and "- 1 \<le> g'"
    and "0 \<le> monthly_active_users (last_record ds)"
    and "0 \<le> monthly_revenue (last_record ds)"
  shows "\<forall>p \<in> set s. nonneg (f_monthly_active_users p) \<and> nonneg (f_monthly_revenue p)"
proof -
  from assms(1) have ne: "ds \<noteq> []"
    by (auto simp: forecast_metrics_empty)
  have "0 \<le> 1 + g" "0 \<le> 1 + g'" using assms(3,5) by simp_all
  then have "0 \<le> monthly_active_users (last_record ds) * (1 + g) ^ n"
    "0 \<le> monthly_revenue (last_record ds) * (1 + g') ^ n" for n
    using assms(6,7) by simp_all
  then show ?thesis
    using assms(1) unfolding forecast_metrics_nonempty [OF ne] assms(2,4)
    by (auto simp: nonneg_def)
qed

theorem forecast_metrics_nonneg_witness:
  "forecast_metrics decline 1 1 =
     Inr [\<lparr> f_date = 19784, f_monthly_active_users = Fin 1, f_monthly_revenue = Fin 1,
            f_type = ''Forecast'' \<rparr>] \<and>
   adjusted_growth decline 1 = Fin (- (9 / 10)) \<and>
   adjusted_revenue_growth decline 1 = Fin (- (9 / 10)) \<and>
   nonneg (Fin 1)"
proof -
  have f: "forecast_metrics decline 1 1 =
     Inr [\<lparr> f_date = 19784, f_monthly_active_users = Fin 1, f_monthly_revenue = Fin 1,
            f_type = ''Forecast'' \<rparr>]"
    by (simp add: decline_def ev)
  have g: "adjusted_growth decline 1 = Fin (- (9 / 10))"
    by (simp add: decline_def ev)
  have g': "adjusted_revenue_growth decline 1 = Fin (- (9 / 10))"
    by (simp add: decline_def ev)
  have l: "0 \<le> monthly_active_users (last_record decline)"
    "0 \<le> monthly_revenue (last_record decline)"
    by (simp_all add: decline_def ev)
  from forecast_metrics_nonneg [OF f g _ g' _ l]
  have "nonneg (Fin 1)" by simp
  with f g g' show ?thesis by simp
qed

text \<open>
  C6 as stated fails: after a drop from 100 to 10 the growth rate is \<open>-0.9\<close>, the
  multiplier 2 makes the adjusted growth \<open>-1.8\<close>, and the first projected MAU and
  revenue are \<open>10 * (1 - 1.8) = -8\<close>.
\<close>

theorem forecast_metrics_negative_counterexample:
  "forecast_metrics decline 1 2 =
     Inr [\<lparr> f_date = 19784, f_monthly_active_users = Fin (- 8), f_monthly_revenue = Fin (- 8),
            f_type = ''Forecast'' \<rparr>] \<and>
   adjusted_growth decline 2 = Fin (- (9 / 5)) \<and> \<not> nonneg (Fin (- 8))"
  by (simp add: decline_def ev nonneg_def)

text \<open>
  C8, as the code has it. No parameter is checked. For a horizon \<open>h \<le> 0\<close> the range of
  months is empty, and \<open>forecast_metrics\<close> returns the empty series on every Dataset
  with a record (the IndexError of an empty Dataset is raised as for any horizon).
\<close>

theorem forecast_metrics_nonpositive_horizon:
  assumes "h \<le> 0"
  shows "forecast_metrics ds h m = (if ds = [] then Inl IndexError else Inr [])"
  using assms by (simp add: forecast_metrics_empty forecast_metrics_nonempty)

theorem forecast_metrics_nonpositive_horizon_witness:
  "(- 3 :: int) \<le> 0 \<and> forecast_metrics jan_feb (- 3) 1 = Inr []"
  using forecast_metrics_nonpositive_horizon [of "- 3" jan_feb 1]
  by (simp add: jan_feb_def)

text \<open>C8 as stated fails: the horizon 0 is not rejected, an empty series comes back.\<close>

theorem forecast_metrics_zero_horizon_counterexample:
  "forecast_metrics jan_feb 0 1 = Inr []"
  by (simp add: jan_feb_def ev)

section \<open>Properties of update_data\<close>

lemma split_upload_empty: "split_comma upload_empty = [''data:text/csv;base64'', []]"
  by (simp add: upload_empty_def)

lemma split_upload_desc: "split_comma upload_desc = [''data:text/csv;base64'', b64_desc]"
proof -
  have "split_comma b64_desc = [b64_desc]"
    by (simp add: b64_desc_def)
  then show ?thesis by (simp add: upload_desc_def)
qed

lemma b64_desc_ne: "b64_desc \<noteq> []"
  by (simp add: b64_desc_def)

lemma csv_desc_ne: "csv_desc \<noteq> []"
  by (simp add: csv_desc_def csv_header_def)

lemma df_default_example: "df_default example_env = jan_feb"
  by (simp add: example_env_def)

lemma to_json_example: "to_json example_env df = Json_of df"
  by (simp add: example_env_def)

lemma parse_upload_empty:
  "parse_upload example_env upload_empty = Inl (LibraryError ''EmptyDataError'')"
  by (simp add: parse_upload_def split_upload_empty example_env_def)

lemma parse_upload_desc: "parse_upload example_env upload_desc = Inr desc_frame"
  by (simp add: parse_upload_def split_upload_desc example_env_def b64_desc_ne csv_desc_ne
      iso_days_def desc_frame_def)

text \<open>The \<open>try\<close> body succeeds exactly when each of its four calls does.\<close>

lemma parse_upload_Inr:
  "(parse_upload env c = Inr df) =
     (\<exists>content_type content_string text raw.
        split_comma c = [content_type, content_string] \<and>
        b64decode_utf8 env content_string = Inr text \<and>
        read_csv env text = Inr raw \<and>
        to_datetime_date env raw = Inr df)"
  by (auto simp: parse_upload_def split: list.splits sum.splits)

text \<open>
  C4, as the code has it. When the upload fails to parse, \<open>update_data\<close> returns the
  serialised default sample Dataset together with a danger alert carrying the error, and
  that default is what the store holds afterwards, whatever it held before.
\<close>

theorem update_data_failure_resets:
  assumes "parse_upload env c = Inl e"
  shows "update_data env (Some c) filename = (to_json env (df_default env), Danger e)
       \<and> commit_upload env stored (Some c) filename = to_json env (df_default env)"
  using assms by (simp add: update_data_def commit_upload_def)

theorem update_data_failure_resets_witness:
  "parse_upload example_env upload_empty = Inl (LibraryError ''EmptyDataError'') \<and>
   update_data example_env (Some upload_empty) ''empty.csv''
     = (Json_of jan_feb, Danger (LibraryError ''EmptyDataError'')) \<and>
   commit_upload example_env (Json_of jan_feb) (Some upload_empty) ''empty.csv''
     = Json_of jan_feb"
  using update_data_failure_resets
    [OF parse_upload_empty, of "''empty.csv''" "Json_of jan_feb"]
  by (simp add: parse_upload_empty df_default_example to_json_example)

text \<open>
  C4 as stated fails: a first upload replaces the default by the uploaded frame, and the
  failed upload of an empty file after it puts the default back, so the frame that was
  canonical before the failed upload is lost.
\<close>

theorem commit_upload_prior_lost_counterexample:
  "commit_upload example_env (Json_of jan_feb) (Some upload_desc) ''desc.csv''
     = Json_of desc_frame \<and>
   commit_upload example_env (Json_of desc_frame) (Some upload_empty) ''empty.csv''
     = Json_of jan_feb \<and>
   Json_of jan_feb \<noteq> Json_of desc_frame"
  by (simp add: commit_upload_def update_data_def parse_upload_empty parse_upload_desc
      df_default_example to_json_example jan_feb_def desc_frame_def row_def)

lemma parse_upload_stages:
  "(\<exists>content_type content_string decoded raw df.
      split_comma c = [content_type, content_string] \<and>
      b64decode_utf8 env content_string = Inr decoded \<and>
      read_csv env decoded = Inr raw \<and>
      to_datetime_date env raw = Inr df \<and> Q df) =
   (\<exists>df. parse_upload env c = Inr df \<and> Q df)"
  unfolding parse_upload_Inr by blast

text \<open>
  C7, as the code has it. \<open>update_data\<close> commits an upload with a success alert exactly
  when the four calls of its \<open>try\<close> body raise nothing: the contents split at one comma
  into two parts, the second part decodes, \<open>pd.read_csv\<close> reads the text, and
  \<open>pd.to_datetime\<close> converts the \<open>date\<close> column. What it commits is then
  \<open>df.to_json(...)\<close> of the frame these calls return, whatever that frame is: the callback
  puts no condition of its own on it (none on the order of its dates, none on repeated
  dates) and changes nothing in it. In every other case the upload is rejected: the
  serialised default is returned with a danger alert.
\<close>

theorem update_data_commits_parse:
  "(update_data env (Some c) filename = (stored, Success name)) =
     (name = filename \<and>
      (\<exists>content_type content_string text raw df.
         split_comma c = [content_type, content_string] \<and>
         b64decode_utf8 env content_string = Inr text \<and>
         read_csv env text = Inr raw \<and>
         to_datetime_date env raw = Inr df \<and>
         stored = to_json env df))
   \<and> ((\<exists>e. update_data env (Some c) filename = (stored, Danger e)) =
        (stored = to_json env (df_default env) \<and>
         \<not> (\<exists>content_type content_string text raw df.
              split_comma c = [content_type, content_string] \<and>
              b64decode_utf8 env content_string = Inr text \<and>
              read_csv env text = Inr raw \<and>
              to_datetime_date env raw = Inr df)))
   \<and> update_data env (Some c) filename \<noteq> (stored, NoAlert)"
proof -
  have s1: "(\<exists>content_type content_string text raw df.
         split_comma c = [content_type, content_string] \<and>
         b64decode_utf8 env content_string = Inr text \<and>
         read_csv env text = Inr raw \<and>
         to_datetime_date env raw = Inr df \<and>
         stored = to_json env df) = (\<exists>df. parse_upload env c = Inr df \<and> stored = to_json env df)"
    by (rule parse_upload_stages)
  have s2: "(\<exists>content_type content_string text raw df.
              split_comma c = [content_type, content_string] \<and>
              b64decode_utf8 env content_string = Inr text \<and>
              read_csv env text = Inr raw \<and>
              to_datetime_date env raw = Inr df) = (\<exists>df. parse_upload env c = Inr df)"
    using parse_upload_stages [of c env "\<lambda>_. True"] by simp
  show ?thesis
    unfolding s1 s2
  proof (cases "parse_upload env c")
    case (Inl e)
    then show "(update_data env (Some c) filename = (stored, Success name)) =
      (name = filename \<and> (\<exists>df. parse_upload env c = Inr df \<and> stored = to_json env df)) \<and>
      ((\<exists>e. update_data env (Some c) filename = (stored, Danger e)) =
       (stored = to_json env (df_default env) \<and> \<not> (\<exists>df. parse_upload env c = Inr df))) \<and>
      update_data env (Some c) filename \<noteq> (stored, NoAlert)"
      by (simp add: update_data_def eq_commute [of stored])
  next
    case (Inr df)
    then show "(update_data env (Some c) filename = (stored, Success name)) =
      (name = filename \<and> (\<exists>df. parse_upload env c = Inr df \<and> stored = to_json env df)) \<and>
      ((\<exists>e. update_data env (Some c) filename = (stored, Danger e)) =
       (stored = to_json env (df_default env) \<and> \<not> (\<exists>df. parse_upload env c = Inr df))) \<and>
      update_data env (Some c) filename \<noteq> (stored, NoAlert)"
      by (auto simp add: update_data_def)
  qed
qed

text \<open>
  The upload of the CSV file in descending date order: each call succeeds and the frame
  is committed as the calls return it.
\<close>

theorem update_data_commits_parse_witness:
  "update_data example_env (Some upload_desc) ''desc.csv''
     = (Json_of desc_frame, Success ''desc.csv'') \<and>
   (\<exists>content_type content_string text raw df.
      split_comma upload_desc = [content_type, content_string] \<and>
      b64decode_utf8 example_env content_string = Inr text \<and>
      read_csv example_env text = Inr raw \<and>
      to_datetime_date example_env raw = Inr df \<and>
      Json_of desc_frame = to_json example_env df)"
proof -
  have u: "update_data example_env (Some upload_desc) ''desc.csv''
    = (Json_of desc_frame, Success ''desc.csv'')"
    by (simp add: update_data_def parse_upload_desc to_json_example)
  from update_data_commits_parse
    [of example_env upload_desc "''desc.csv''" "Json_of desc_frame" "''desc.csv''"] u
  show ?thesis by simp
qed

text \<open>
  C7 as stated fails: a CSV file whose rows are in descending date order is committed
  with a success alert, its rows still in descending date order.
\<close>

theorem update_data_unsorted_counterexample:
  "update_data example_env (Some upload_desc) ''desc.csv''
     = (Json_of desc_frame, Success ''desc.csv'') \<and>
   map date desc_frame = [19754, 19723] \<and> \<not> sorted (map date desc_frame)"
  by (simp add: update_data_def parse_upload_desc to_json_example desc_frame_def row_def)

section \<open>Properties of the callback graph\<close>

text \<open>
  C9. A change of either slider triggers \<open>update_forecast\<close> and no other callback, and
  nothing listens to the forecast figure, while a change of the stored Dataset triggers
  all five views. The KPI panel and the growth, revenue and engagement views are the same
  after any change of the two sliders; the forecast view is \<open>update_forecast\<close> of the
  Dataset and both sliders, and its value does change with the multiplier, with the
  horizon and with the Dataset.
\<close>

theorem scenario_change_recomputes_forecast_only:
  "triggered_by (''growth-slider'', ''value'') = [''update_forecast''] \<and>
   triggered_by (''months-slider'', ''value'') = [''update_forecast''] \<and>
   triggered_by (''forecast-chart'', ''figure'') = [] \<and>
   triggered_by (''stored-data'', ''data'') =
     [''update_kpis'', ''update_growth_chart'', ''update_revenue_chart'', ''update_forecast'',
      ''update_engagement_chart''] \<and>
   kpi_panel (st\<lparr>growth_slider := g, months_slider := h\<rparr>) = kpi_panel st \<and>
   growth_view (st\<lparr>growth_slider := g, months_slider := h\<rparr>) = growth_view st \<and>
   revenue_view (st\<lparr>growth_slider := g, months_slider := h\<rparr>) = revenue_view st \<and>
   engagement_view (st\<lparr>growth_slider := g, months_slider := h\<rparr>) = engagement_view st \<and>
   forecast_view (st\<lparr>growth_slider := g, months_slider := h\<rparr>)
     = update_forecast (stored_data st) g h \<and>
   forecast_view \<lparr>stored_data = jan_feb, growth_slider = 2, months_slider = 1\<rparr>
     \<noteq> forecast_view \<lparr>stored_data = jan_feb, growth_slider = 1, months_slider = 1\<rparr> \<and>
   forecast_view \<lparr>stored_data = jan_feb, growth_slider = 1, months_slider = 2\<rparr>
     \<noteq> forecast_view \<lparr>stored_data = jan_feb, growth_slider = 1, months_slider = 1\<rparr> \<and>
   forecast_view \<lparr>stored_data = decline, growth_slider = 1, months_slider = 1\<rparr>
     \<noteq> forecast_view \<lparr>stored_data = jan_feb, growth_slider = 1, months_slider = 1\<rparr>"
proof -
  have t: "triggered_by (''growth-slider'', ''value'') = [''update_forecast'']"
    "triggered_by (''months-slider'', ''value'') = [''update_forecast'']"
    "triggered_by (''forecast-chart'', ''figure'') = []"
    "triggered_by (''stored-data'', ''data'') =
     [''update_kpis'', ''update_growth_chart'', ''update_revenue_chart'', ''update_forecast'',
      ''update_engagement_chart'']"
    by (simp_all add: triggered_by_def callbacks_def)
  have v: "kpi_panel (st\<lparr>growth_slider := g, months_slider := h\<rparr>) = kpi_panel st"
    "growth_view (st\<lparr>growth_slider := g, months_slider := h\<rparr>) = growth_view st"
    "revenue_view (st\<lparr>growth_slider := g, months_slider := h\<rparr>) = revenue_view st"
    "engagement_view (st\<lparr>growth_slider := g, months_slider := h\<rparr>) = engagement_view st"
    "forecast_view (st\<lparr>growth_slider := g, months_slider := h\<rparr>)
       = update_forecast (stored_data st) g h"
    by (simp_all add: kpi_panel_def growth_view_def revenue_view_def engagement_view_def
        forecast_view_def)
  have u: "[1..2] = [1, 2::int]" by (simp add: upto_rec1)
  have f: "forecast_metrics jan_feb 1 1 = Inr [\<lparr> f_date = 19784,
        f_monthly_active_users = Fin 1210, f_monthly_revenue = Fin 6050,
        f_type = ''Forecast'' \<rparr>]"
    by (simp add: jan_feb_def ev)
  have f2: "forecast_metrics jan_feb 1 2 = Inr [\<lparr> f_date = 19784,
        f_monthly_active_users = Fin 1320, f_monthly_revenue = Fin 6600,
        f_type = ''Forecast'' \<rparr>]"
    by (simp add: jan_feb_def ev)
  have f3: "\<exists>a b. forecast_metrics jan_feb 2 1 = Inr [a, b]"
    by (simp add: jan_feb_def ev u)
  have f4: "forecast_metrics decline 1 1 =
     Inr [\<lparr> f_date = 19784, f_monthly_active_users = Fin 1, f_monthly_revenue = Fin 1,
            f_type = ''Forecast'' \<rparr>]"
    by (simp add: decline_def ev)
  have d: "forecast_view \<lparr>stored_data = jan_feb, growth_slider = 2, months_slider = 1\<rparr>
     \<noteq> forecast_view \<lparr>stored_data = jan_feb, growth_slider = 1, months_slider = 1\<rparr>"
    "forecast_view \<lparr>stored_data = jan_feb, growth_slider = 1, months_slider = 2\<rparr>
     \<noteq> forecast_view \<lparr>stored_data = jan_feb, growth_slider = 1, months_slider = 1\<rparr>"
    "forecast_view \<lparr>stored_data = decline, growth_slider = 1, months_slider = 1\<rparr>
     \<noteq> forecast_view \<lparr>stored_data = jan_feb, growth_slider = 1, months_slider = 1\<rparr>"
    using f3 by (auto simp add: forecast_view_def update_forecast_def f f2 f4)
  from t v d show ?thesis by simp
qed

end
